theory Spec2Isabelle
  imports Complex_Main
begin

section \<open>The simulation driver of kt\_simul (core/simul\_spindle.py)\<close>

text \<open>
  This theory embeds the class \<open>Metaphase\<close> of \<open>kt_simul/core/simul_spindle.py\<close>:
  its constructor, the main loop \<open>simul\<close>, the anaphase test, the ablation, the
  checkpoints and the attachment classifier. Python exceptions are values of the type
  \<open>error\<close>. Numbers read from the parameter dictionaries are rationals: Python floats
  are rationals, and the rounding of float arithmetic is not modelled.
\<close>

subsection \<open>Exceptions and conversions\<close>

datatype error =
    IndexError
  | KeyError string
  | ZeroDivisionError
  | SimulationAlreadyDone

text \<open>Python's \<open>int(x)\<close> on a number: truncation toward zero.\<close>

definition py_int :: "rat \<Rightarrow> int" where
  "py_int x = (if 0 \<le> x then \<lfloor>x\<rfloor> else \<lceil>x\<rceil>)"

subsection \<open>The attachment classifier (\<open>Metaphase.get_attachment\<close>)\<close>

definition amphitelic :: "int list \<Rightarrow> bool" where
  "amphitelic state =
     (state ! 0 > 0 \<and> state ! 1 > 0 \<and> state ! 2 = 0 \<and> state ! 3 = 0)"

definition monotelic :: "int list \<Rightarrow> bool" where
  "monotelic state =
     (state ! 0 > 0 \<and> state ! 1 = 0 \<and> state ! 2 = 0 \<and> state ! 3 = 0)"

definition syntelic :: "int list \<Rightarrow> bool" where
  "syntelic state =
     (state ! 0 > 0 \<and> state ! 1 = 0 \<and> state ! 2 = 0 \<and> state ! 3 > 0)"

definition merotelic :: "int list \<Rightarrow> bool" where
  "merotelic state = (state ! 0 > 0 \<and> state ! 2 > 0)"

definition unattached :: "int list \<Rightarrow> bool" where
  "unattached state =
     (state ! 0 = 0 \<and> state ! 1 = 0 \<and> state ! 2 = 0 \<and> state ! 3 = 0)"

definition permuted :: "int list \<Rightarrow> int list" where
  "permuted state = [state ! 1, state ! 0, state ! 3, state ! 2]"

text \<open>
  The source builds \<open>permuted_state\<close> before the first test, reading \<open>state[0..3]\<close>:
  a state of fewer than four elements raises IndexError there, so the five predicates
  only ever index a list of four elements or more.
\<close>

definition get_attachment :: "int list \<Rightarrow> error + nat" where
  "get_attachment state =
     (if length state < 4 then Inl IndexError
      else let permuted_state = permuted state in
        if amphitelic state \<or> amphitelic permuted_state then Inr 0
        else if monotelic state \<or> monotelic permuted_state then Inr 1
        else if syntelic state \<or> syntelic permuted_state then Inr 2
        else if merotelic state \<or> merotelic permuted_state then Inr 3
        else if unattached state \<or> unattached permuted_state then Inr 4
        else Inr 5)"

definition get_attachment_names :: "string list" where
  "get_attachment_names =
     [''amphitelic'', ''monotelic'', ''syntelic'', ''merotelic'', ''unattached'', ''error'']"

subsection \<open>The physical state, by shape\<close>

text \<open>
  Modelled from the spec: the class \<open>KinetoDynamics\<close> and its entities (chromosome,
  centromere, plug site) live in \<open>core/spindle_dynamics\<close>, which the driver imports and
  which is not among the source files. The records below hold the attributes the driver
  reads and writes, as the spec's data model and the driver's accesses give them.
  The plug sites are kept once, in \<open>all_plugsites\<close> (the source's
  \<open>KD.spindle.all_plugsites\<close>); a centromere refers to its sites by their index there.
\<close>

record plugsite =
  pos :: rat
  plug_state :: int
  transitions :: "(int \<times> int) list"

text \<open>
  Modelled from the spec: the method \<open>PlugSite.set_plug_state(new_state, time_point)\<close> is
  not in the driver's file. It sets \<open>plug_state\<close> and records the time point of the
  transition.
\<close>

definition set_plug_state :: "int \<Rightarrow> int \<Rightarrow> plugsite \<Rightarrow> plugsite" where
  "set_plug_state new_state time_point p =
     p\<lparr>plug_state := new_state, transitions := transitions p @ [(time_point, new_state)]\<rparr>"

record centromere =
  tag :: string
  plugsites :: "nat list"
  toa :: rat

record chromosome =
  ch_id :: nat
  cen_A :: centromere
  cen_B :: centromere
  correct_history :: "int list list"
  erroneous_history :: "int list list"

record kineto_dynamics =
  params :: "string \<rightharpoonup> rat"
  anaphase :: bool
  simulation_done :: bool
  spbL_pos :: rat
  spbR_pos :: rat
  chromosomes :: "chromosome list"
  all_plugsites :: "plugsite list"
  A0_mat :: "rat list list"

text \<open>
  The behaviour of the collaborator is a parameter of the model: one function for each
  method the driver calls, and every theorem holds for all of them. A method of an entity reads the whole physical state and
  returns the entity updated; \<open>one_step\<close> and \<open>calc_B\<close> may change the whole state.
  The functions are total: an exception raised inside the collaborator is not modelled.
\<close>

record collab =
  one_step :: "int \<Rightarrow> kineto_dynamics \<Rightarrow> kineto_dynamics"
  calc_B :: "kineto_dynamics \<Rightarrow> kineto_dynamics"
  time_invariantA :: "kineto_dynamics \<Rightarrow> rat list list"
  is_attached :: "kineto_dynamics \<Rightarrow> centromere \<Rightarrow> bool"
  erroneous :: "kineto_dynamics \<Rightarrow> chromosome \<Rightarrow> int list"
  calc_correct_history :: "kineto_dynamics \<Rightarrow> chromosome \<Rightarrow> chromosome"
  calc_erroneous_history :: "kineto_dynamics \<Rightarrow> chromosome \<Rightarrow> chromosome"
  calc_toa :: "kineto_dynamics \<Rightarrow> centromere \<Rightarrow> centromere"

subsection \<open>The driver's state\<close>

text \<open>
  \<open>trace\<close> is the sequence of the calls the driver makes to the outside: the records it
  hands to the module's logger and its calls of \<open>one_step\<close>, \<open>calc_B\<close> and
  \<open>time_invariantA\<close>. It is instrumentation: no function of the model reads it. The
  calls of \<open>pprogress\<close> (a progress bar) are left out.
\<close>

datatype level = INFO | WARNING

datatype event = Log level string | OneStep int | CalcB | TimeInvariantA

record metaphase =
  verbose :: bool
  KD :: kineto_dynamics
  num_steps :: int
  report :: "string list"
  delay :: rat
  trace :: "event list"

definition emit :: "event \<Rightarrow> metaphase \<Rightarrow> metaphase" where
  "emit e m = m\<lparr>trace := trace m @ [e]\<rparr>"

definition log_info :: "string \<Rightarrow> metaphase \<Rightarrow> metaphase" where
  "log_info s m = (if verbose m then emit (Log INFO s) m else m)"

subsection \<open>String formatting (\<open>%d\<close>, \<open>%i\<close>, \<open>%2d\<close>)\<close>

fun digits :: "nat \<Rightarrow> string" where
  "digits n =
     (if n < 10 then [''0123456789'' ! n]
      else digits (n div 10) @ [''0123456789'' ! (n mod 10)])"

declare digits.simps [simp del]

definition str_int :: "int \<Rightarrow> string" where
  "str_int i = (if i < 0 then CHR ''-'' # digits (nat (- i)) else digits (nat i))"

definition pad_left :: "nat \<Rightarrow> string \<Rightarrow> string" where
  "pad_left w s = replicate (w - length s) CHR '' '' @ s"

text \<open>\<open>"delay = %2d seconds" % delay\<close>: \<open>%d\<close> truncates a float toward zero.\<close>

definition delay_str :: "rat \<Rightarrow> string" where
  "delay_str d = ''delay = '' @ pad_left 2 (str_int (py_int d)) @ '' seconds''"

definition mero_str :: "int \<Rightarrow> string" where
  "mero_str nb_mero =
     ''There were '' @ str_int nb_mero @ '' merotelic MT at anaphase onset''"

definition onset_str :: "int \<Rightarrow> int \<Rightarrow> string" where
  "onset_str time_point n =
     ''Anaphase onset at '' @ str_int time_point @ '' / '' @ str_int n"

subsection \<open>Construction (\<open>Metaphase.__init__\<close>)\<close>

text \<open>
  \<open>duration\<close> and \<open>dt\<close> are \<open>absolute_dic['span']\<close> and \<open>absolute_dic['dt']\<close>; \<open>kd\<close> is
  the object the constructor of \<open>KinetoDynamics\<close> returns. The logger is disabled during
  construction unless \<open>verbose\<close> is set, and enabled again at its end.
\<close>

definition Metaphase_init ::
  "bool \<Rightarrow> rat \<Rightarrow> rat \<Rightarrow> kineto_dynamics \<Rightarrow> error + metaphase" where
  "Metaphase_init verb duration dt kd =
     (if dt = 0 then Inl ZeroDivisionError
      else Inr \<lparr>verbose = verb,
                KD = kd\<lparr>anaphase := False\<rparr>,
                num_steps = py_int (duration / dt),
                report = [],
                delay = - 1,
                trace = (if verb then [Log INFO ''Parameters loaded'',
                                       Log INFO ''Simulation initialized'']
                         else [])\<rparr>)"

subsection \<open>Checkpoints\<close>

fun plug_loop :: "collab \<Rightarrow> kineto_dynamics \<Rightarrow> chromosome list \<Rightarrow> bool" where
  "plug_loop c kd [] = True"
| "plug_loop c kd (ch # chs) =
     (if \<not> is_attached c kd (cen_A ch) \<or> \<not> is_attached c kd (cen_B ch) then False
      else plug_loop c kd chs)"

definition plug_checkpoint :: "collab \<Rightarrow> kineto_dynamics \<Rightarrow> error + bool" where
  "plug_checkpoint c kd =
     (case params kd ''sac'' of
        None \<Rightarrow> Inl (KeyError ''sac'')
      | Some sac \<Rightarrow> if sac = 0 then Inr True else Inr (plug_loop c kd (chromosomes kd)))"

definition np_any :: "int list \<Rightarrow> bool" where
  "np_any xs = list_ex (\<lambda>x. x \<noteq> 0) xs"

fun mero_loop :: "collab \<Rightarrow> kineto_dynamics \<Rightarrow> chromosome list \<Rightarrow> int \<Rightarrow> int" where
  "mero_loop c kd [] nb_mero = nb_mero"
| "mero_loop c kd (ch # chs) nb_mero =
     mero_loop c kd chs
       (if np_any (erroneous c kd ch) then nb_mero + sum_list (erroneous c kd ch)
        else nb_mero)"

definition mero_checkpoint :: "collab \<Rightarrow> kineto_dynamics \<Rightarrow> int" where
  "mero_checkpoint c kd = mero_loop c kd (chromosomes kd) 0"

subsection \<open>The anaphase test (\<open>Metaphase._anaphase_test\<close>)\<close>

text \<open>The branch of the source that fires the transition, at time \<open>t\<close>.\<close>

definition anaphase_onset :: "collab \<Rightarrow> metaphase \<Rightarrow> rat \<Rightarrow> int \<Rightarrow> metaphase" where
  "anaphase_onset c m t t_A =
     (let m1 = m\<lparr>delay := t - of_int t_A\<rparr>;
          kd1 = (KD m1)\<lparr>params := (params (KD m1))(''kappa_c'' \<mapsto> 0)\<rparr>;
          m2 = emit CalcB (m1\<lparr>KD := calc_B c kd1\<rparr>);
          nb_mero = mero_checkpoint c (KD m2);
          m3 = (if nb_mero \<noteq> 0 then m2\<lparr>report := report m2 @ [mero_str nb_mero]\<rparr>
                else m2)
      in m3\<lparr>KD := (KD m3)\<lparr>anaphase := True\<rparr>\<rparr>)"

definition anaphase_test ::
  "collab \<Rightarrow> metaphase \<Rightarrow> int \<Rightarrow> (error + bool) \<times> metaphase" where
  "anaphase_test c m time_point =
     (case params (KD m) ''t_A'' of
        None \<Rightarrow> (Inl (KeyError ''t_A''), m)
      | Some tA \<Rightarrow>
         (case params (KD m) ''dt'' of
            None \<Rightarrow> (Inl (KeyError ''dt''), m)
          | Some dt \<Rightarrow>
             (let t_A = py_int tA;
                  t = of_int time_point * dt
              in if anaphase (KD m) then (Inr True, m)
                 else if t \<ge> of_int t_A then
                   (case plug_checkpoint c (KD m) of
                      Inl e \<Rightarrow> (Inl e, m)
                    | Inr ok \<Rightarrow>
                        if ok then (Inr True, anaphase_onset c m t t_A)
                        else (Inr False, m))
                 else (Inr False, m))))"

subsection \<open>The ablation (\<open>Metaphase._ablation\<close>)\<close>

definition ablate_site :: "rat \<Rightarrow> int \<Rightarrow> plugsite \<Rightarrow> plugsite" where
  "ablate_site p time_point plugsite =
     (if p < pos plugsite \<and> plug_state plugsite = - 1 then set_plug_state 0 time_point plugsite
      else if p > pos plugsite \<and> plug_state plugsite = 1 then set_plug_state 0 time_point plugsite
      else plugsite)"

fun ablation_loop :: "rat \<Rightarrow> int \<Rightarrow> plugsite list \<Rightarrow> plugsite list" where
  "ablation_loop p time_point [] = []"
| "ablation_loop p time_point (plugsite # rest) =
     ablate_site p time_point plugsite # ablation_loop p time_point rest"

definition ablation :: "collab \<Rightarrow> metaphase \<Rightarrow> int \<Rightarrow> rat option \<Rightarrow> metaphase" where
  "ablation c m time_point pos_arg =
     (let kd = KD m;
          p = (case pos_arg of None \<Rightarrow> spbR_pos kd | Some x \<Rightarrow> x)
      in if \<not> (spbL_pos kd \<le> p \<and> p \<le> spbR_pos kd)
         then emit (Log WARNING ''Missed shot, same player play again!'') m
         else
           (let kd1 = kd\<lparr>params := (params kd)(''Fmz'' \<mapsto> 0, ''k_a'' \<mapsto> 0, ''k_d0'' \<mapsto> 0)\<rparr>;
                kd2 = kd1\<lparr>A0_mat := time_invariantA c kd1\<rparr>;
                kd3 = kd2\<lparr>all_plugsites := ablation_loop p time_point (all_plugsites kd2)\<rparr>
            in emit TimeInvariantA (m\<lparr>KD := kd3\<rparr>)))"

subsection \<open>The main loop (\<open>Metaphase.simul\<close>)\<close>

text \<open>
  One iteration for each time point of \<open>range(1, num_steps)\<close>; \<open>log_anaphase_onset\<close> is
  the local variable of the source.
\<close>

fun simul_loop ::
  "collab \<Rightarrow> rat option \<Rightarrow> rat option \<Rightarrow> int list \<Rightarrow> bool \<Rightarrow> metaphase
     \<Rightarrow> (error + bool) \<times> metaphase" where
  "simul_loop c ablat ablat_pos [] log_anaphase_onset m = (Inr log_anaphase_onset, m)"
| "simul_loop c ablat ablat_pos (time_point # rest) log_anaphase_onset m =
     (let m1 = (if ablat = Some (of_int time_point)
                then ablation c (log_info ''Performing ablation'' m) time_point ablat_pos
                else m)
      in case anaphase_test c m1 time_point of
           (Inl e, m2) \<Rightarrow> (Inl e, m2)
         | (Inr b, m2) \<Rightarrow>
             (let m3 = (if b \<and> \<not> log_anaphase_onset
                        then log_info (onset_str time_point (num_steps m2)) m2
                        else m2);
                  m4 = emit (OneStep time_point) (m3\<lparr>KD := one_step c time_point (KD m3)\<rparr>)
              in simul_loop c ablat ablat_pos rest (log_anaphase_onset \<or> b) m4))"

text \<open>The calls made on every chromosome after the loop, in the order of the source.\<close>

definition finalize_chromosome :: "collab \<Rightarrow> nat \<Rightarrow> kineto_dynamics \<Rightarrow> kineto_dynamics" where
  "finalize_chromosome c i kd =
     (let kd1 = kd\<lparr>chromosomes :=
                  (chromosomes kd)[i := calc_correct_history c kd (chromosomes kd ! i)]\<rparr>;
          kd2 = kd1\<lparr>chromosomes :=
                  (chromosomes kd1)[i := calc_erroneous_history c kd1 (chromosomes kd1 ! i)]\<rparr>;
          ch2 = chromosomes kd2 ! i;
          kd3 = kd2\<lparr>chromosomes :=
                  (chromosomes kd2)[i := ch2\<lparr>cen_A := calc_toa c kd2 (cen_A ch2)\<rparr>]\<rparr>;
          ch3 = chromosomes kd3 ! i
      in kd3\<lparr>chromosomes :=
                  (chromosomes kd3)[i := ch3\<lparr>cen_B := calc_toa c kd3 (cen_B ch3)\<rparr>]\<rparr>)"

fun finalize_loop :: "collab \<Rightarrow> nat list \<Rightarrow> kineto_dynamics \<Rightarrow> kineto_dynamics" where
  "finalize_loop c [] kd = kd"
| "finalize_loop c (i # rest) kd = finalize_loop c rest (finalize_chromosome c i kd)"

definition simul ::
  "collab \<Rightarrow> metaphase \<Rightarrow> rat option \<Rightarrow> rat option \<Rightarrow> (error + unit) \<times> metaphase" where
  "simul c m ablat ablat_pos =
     (if simulation_done (KD m) then (Inl SimulationAlreadyDone, m)
      else case params (KD m) ''kappa_c'' of
        None \<Rightarrow> (Inl (KeyError ''kappa_c''), m)
      | Some kappa_c \<Rightarrow>
         (case simul_loop c ablat ablat_pos [1..num_steps m - 1] False
                 (log_info ''Running simulation'' m) of
            (Inl e, m1) \<Rightarrow> (Inl e, m1)
          | (Inr log_anaphase_onset, m1) \<Rightarrow>
             (let m2 = log_info ''Simulation done'' m1;
                  m3 = m2\<lparr>KD := (KD m2)\<lparr>params := (params (KD m2))(''kappa_c'' \<mapsto> kappa_c)\<rparr>\<rparr>;
                  m4 = m3\<lparr>report := report m3 @ [delay_str (delay m3)]\<rparr>
              in (Inr (),
                  m4\<lparr>KD := finalize_loop c [0..<length (chromosomes (KD m4))] (KD m4)\<rparr>))))"


subsection \<open>A small spindle, for the concrete runs\<close>

text \<open>
  One chromosome with two plug sites on each centromere, between poles at \<open>-2\<close> and
  \<open>2\<close>. In \<open>ex_kd\<close> site 0 is attached to the left pole and site 2 to the right pole;
  in \<open>ex_kd_free\<close> no site is attached. The collaborator \<open>ex_collab\<close> moves the poles
  apart at each step and counts a centromere as attached when one of its sites is.
\<close>

definition ex_params :: "string \<rightharpoonup> rat" where
  "ex_params =
     [''kappa_c'' \<mapsto> 5, ''t_A'' \<mapsto> 3 / 2, ''dt'' \<mapsto> 1, ''sac'' \<mapsto> 1,
      ''Fmz'' \<mapsto> 2, ''k_a'' \<mapsto> 3, ''k_d0'' \<mapsto> 4]"

definition ex_site :: "rat \<Rightarrow> int \<Rightarrow> plugsite" where
  "ex_site x st = \<lparr>pos = x, plug_state = st, transitions = []\<rparr>"

definition ex_chromosome :: chromosome where
  "ex_chromosome =
     \<lparr>ch_id = 0,
      cen_A = \<lparr>tag = ''A'', plugsites = [0, 1], toa = 0\<rparr>,
      cen_B = \<lparr>tag = ''B'', plugsites = [2, 3], toa = 0\<rparr>,
      correct_history = [], erroneous_history = []\<rparr>"

definition ex_kd :: kineto_dynamics where
  "ex_kd =
     \<lparr>params = ex_params, anaphase = False, simulation_done = False,
      spbL_pos = - 2, spbR_pos = 2,
      chromosomes = [ex_chromosome],
      all_plugsites = [ex_site 1 (- 1), ex_site 1 0, ex_site (- 1) 1, ex_site (- 1) 0],
      A0_mat = []\<rparr>"

definition ex_kd_free :: kineto_dynamics where
  "ex_kd_free =
     ex_kd\<lparr>all_plugsites := [ex_site 1 0, ex_site 1 0, ex_site (- 1) 0, ex_site (- 1) 0]\<rparr>"

definition ex_collab :: collab where
  "ex_collab =
     \<lparr>one_step = (\<lambda>time_point kd.
         kd\<lparr>simulation_done := True,
            spbL_pos := spbL_pos kd - 1 / 10, spbR_pos := spbR_pos kd + 1 / 10\<rparr>),
      calc_B = (\<lambda>kd. kd),
      time_invariantA = (\<lambda>kd. case params kd ''k_a'' of None \<Rightarrow> [] | Some k \<Rightarrow> [[k]]),
      is_attached = (\<lambda>kd cen.
         list_ex (\<lambda>i. i < length (all_plugsites kd) \<and> plug_state (all_plugsites kd ! i) \<noteq> 0)
           (plugsites cen)),
      erroneous = (\<lambda>kd ch. [1, 0]),
      calc_correct_history = (\<lambda>kd ch. ch\<lparr>correct_history := [[1, 1]]\<rparr>),
      calc_erroneous_history = (\<lambda>kd ch. ch\<lparr>erroneous_history := [[1, 0]]\<rparr>),
      calc_toa = (\<lambda>kd cen. cen\<lparr>toa := 1\<rparr>)\<rparr>"

definition ex_meta :: "kineto_dynamics \<Rightarrow> metaphase" where
  "ex_meta kd =
     \<lparr>verbose = False, KD = kd, num_steps = 3, report = [], delay = - 1, trace = []\<rparr>"

section \<open>Properties\<close>

subsection \<open>The classifier\<close>

lemmas classifier_defs =
  get_attachment_def Let_def permuted_def amphitelic_def monotelic_def syntelic_def
  merotelic_def unattached_def

text \<open>
  C1 (as stated): the classifier returns the label \<open>error\<close> (index 5) on the state
  vector \<open>[0,1,1,0]\<close>. The code does not: it returns index 2.
\<close>

theorem C1_not_error_label: "get_attachment [0, 1, 1, 0] \<noteq> Inr 5"
  by (simp add: classifier_defs)

text \<open>
  C1 (amended): on the state vector \<open>[0,1,1,0]\<close> the classifier returns the label
  \<open>syntelic\<close> (index 2). The vector itself satisfies none of the five predicates, and
  its left-right permutation \<open>[1,0,0,1]\<close> satisfies neither the amphitelic nor the
  monotelic predicate, but it satisfies the syntelic one, which is tested third.
\<close>

theorem C1_syntelic_label:
  "get_attachment [0, 1, 1, 0] = Inr 2
   \<and> get_attachment_names ! 2 = ''syntelic''
   \<and> permuted [0, 1, 1, 0] = [1, 0, 0, 1]
   \<and> \<not> amphitelic [0, 1, 1, 0] \<and> \<not> monotelic [0, 1, 1, 0] \<and> \<not> syntelic [0, 1, 1, 0]
   \<and> \<not> merotelic [0, 1, 1, 0] \<and> \<not> unattached [0, 1, 1, 0]
   \<and> \<not> amphitelic [1, 0, 0, 1] \<and> \<not> monotelic [1, 0, 0, 1] \<and> syntelic [1, 0, 0, 1]"
  by (simp add: classifier_defs get_attachment_names_def)

text \<open>
  C4: the classifier is invariant under the left-right relabelling: for every
  four-element vector \<open>[a,b,c,d]\<close>, the label of \<open>[a,b,c,d]\<close> is the label of
  \<open>[b,a,d,c]\<close>.
\<close>

theorem C4_classifier_symmetric:
  "get_attachment [a, b, c, d] = get_attachment [b, a, d, c]"
  by (simp add: classifier_defs disj_commute)

theorem C4_classifier_symmetric_witness:
  "get_attachment [2, 0, 1, 0] = Inr 3 \<and> get_attachment [0, 2, 0, 1] = Inr 3"
  using C4_classifier_symmetric [of 2 0 1 0] by (simp add: classifier_defs)

subsection \<open>The spindle-assembly checkpoint\<close>

lemma plug_loop_iff:
  "plug_loop c kd chs =
     (\<forall>ch\<in>set chs. is_attached c kd (cen_A ch) \<and> is_attached c kd (cen_B ch))"
  by (induction chs) auto

text \<open>
  C8: the spindle-assembly checkpoint passes unconditionally when the parameter \<open>sac\<close>
  is 0, whatever the attachments; when \<open>sac\<close> is not 0 it passes iff every chromosome
  has both centromeres attached, so one unattached centromere makes it fail.
\<close>

theorem C8_plug_checkpoint:
  assumes "params kd ''sac'' = Some sac"
  shows "plug_checkpoint c kd =
           Inr (sac = 0 \<or> (\<forall>ch\<in>set (chromosomes kd).
                              is_attached c kd (cen_A ch) \<and> is_attached c kd (cen_B ch)))"
  using assms by (simp add: plug_checkpoint_def plug_loop_iff)

theorem C8_plug_checkpoint_witness:
  "params (ex_kd_free\<lparr>params := ex_params(''sac'' \<mapsto> 0)\<rparr>) ''sac'' = Some 0
   \<and> \<not> is_attached ex_collab (ex_kd_free\<lparr>params := ex_params(''sac'' \<mapsto> 0)\<rparr>) (cen_A ex_chromosome)
   \<and> plug_checkpoint ex_collab (ex_kd_free\<lparr>params := ex_params(''sac'' \<mapsto> 0)\<rparr>) = Inr True
   \<and> params ex_kd_free ''sac'' = Some 1
   \<and> plug_checkpoint ex_collab ex_kd_free = Inr False
   \<and> params ex_kd ''sac'' = Some 1
   \<and> plug_checkpoint ex_collab ex_kd = Inr True"
proof -
  let ?kd0 = "ex_kd_free\<lparr>params := ex_params(''sac'' \<mapsto> 0)\<rparr>"
  have h0: "params ?kd0 ''sac'' = Some 0" by simp
  have h1: "params ex_kd_free ''sac'' = Some 1" by code_simp
  have h2: "params ex_kd ''sac'' = Some 1" by code_simp
  have a0: "\<not> is_attached ex_collab ?kd0 (cen_A ex_chromosome)" by code_simp
  have a1: "\<not> is_attached ex_collab ex_kd_free (cen_A ex_chromosome)" by code_simp
  have a2: "is_attached ex_collab ex_kd (cen_A ex_chromosome)" by code_simp
  have a3: "is_attached ex_collab ex_kd (cen_B ex_chromosome)" by code_simp
  have c1: "chromosomes ex_kd_free = [ex_chromosome]" by (simp add: ex_kd_free_def ex_kd_def)
  have c2: "chromosomes ex_kd = [ex_chromosome]" by (simp add: ex_kd_def)
  show ?thesis
    using C8_plug_checkpoint [OF h0, of ex_collab] C8_plug_checkpoint [OF h1, of ex_collab]
      C8_plug_checkpoint [OF h2, of ex_collab] h0 h1 h2 a0 a1 a2 a3 c1 c2
    by simp
qed

subsection \<open>Running twice\<close>

text \<open>
  C6: \<open>simul\<close> on an instance whose simulation is already done raises
  SimulationAlreadyDone before any step, whatever the ablation arguments, and leaves
  the instance as it was (physical state, report, delay and trace of calls).
\<close>

theorem C6_already_done:
  "simulation_done (KD m) \<Longrightarrow> simul c m ablat ablat_pos = (Inl SimulationAlreadyDone, m)"
  by (simp add: simul_def)

theorem C6_already_done_witness:
  "fst (simul ex_collab (ex_meta ex_kd) None (Some 0)) = Inr ()
   \<and> simulation_done (KD (snd (simul ex_collab (ex_meta ex_kd) None (Some 0))))
   \<and> simul ex_collab (snd (simul ex_collab (ex_meta ex_kd) None (Some 0))) (Some 1) None
       = (Inl SimulationAlreadyDone, snd (simul ex_collab (ex_meta ex_kd) None (Some 0)))"
proof -
  have ok: "fst (simul ex_collab (ex_meta ex_kd) None (Some 0)) = Inr ()" by code_simp
  have h: "simulation_done (KD (snd (simul ex_collab (ex_meta ex_kd) None (Some 0))))"
    by code_simp
  show ?thesis using ok h C6_already_done [OF h] by simp
qed

subsection \<open>The anaphase latch\<close>

text \<open>
  C5: once the anaphase flag is true, a call of the anaphase test never returns False
  and has no side effect: parameters, physical state, recorded delay, report and trace
  of calls (so no call of \<open>calc_B\<close>) are as before. With the keys \<open>t_A\<close> and \<open>dt\<close> in
  the parameter mapping, which the test reads first, the call returns True.
\<close>

theorem C5_anaphase_latch:
  assumes "anaphase (KD m)"
  shows "snd (anaphase_test c m time_point) = m
         \<and> fst (anaphase_test c m time_point) \<noteq> Inr False
         \<and> (params (KD m) ''t_A'' \<noteq> None \<and> params (KD m) ''dt'' \<noteq> None
              \<longrightarrow> anaphase_test c m time_point = (Inr True, m))"
  using assms by (auto simp add: anaphase_test_def Let_def split: option.splits)

theorem C5_anaphase_latch_witness:
  "anaphase (KD (snd (anaphase_test ex_collab (ex_meta ex_kd) 2)))
   \<and> params (KD (snd (anaphase_test ex_collab (ex_meta ex_kd) 2))) ''kappa_c'' = Some 0
   \<and> anaphase_test ex_collab (snd (anaphase_test ex_collab (ex_meta ex_kd) 2)) 3
       = (Inr True, snd (anaphase_test ex_collab (ex_meta ex_kd) 2))"
proof -
  let ?m = "snd (anaphase_test ex_collab (ex_meta ex_kd) 2)"
  have h: "anaphase (KD ?m)" by code_simp
  have k: "params (KD ?m) ''kappa_c'' = Some 0" by code_simp
  have k1: "params (KD ?m) ''t_A'' \<noteq> None" by code_simp
  have k2: "params (KD ?m) ''dt'' \<noteq> None" by code_simp
  show ?thesis using h k k1 k2 C5_anaphase_latch [OF h, of ex_collab 3] by simp
qed

subsection \<open>The ablation\<close>

lemma ablation_loop_map: "ablation_loop p time_point xs = map (ablate_site p time_point) xs"
  by (induction xs) simp_all

lemma ablate_site_unattached: "plug_state s = 0 \<Longrightarrow> ablate_site p time_point s = s"
  by (simp add: ablate_site_def)

text \<open>
  C3: let \<open>p\<close> be the position of the shot (the right pole's position when no position
  is given). When \<open>p\<close> is outside the closed interval \<open>[spbL.pos, spbR.pos]\<close>, the
  ablation changes no plug state (and nothing else of the instance) and hands exactly
  one line, a warning, to the logger; the report list is not written. When \<open>p\<close> is in
  the interval, a plug site whose \<open>plug_state\<close> is already 0 is left as it is.
\<close>

theorem C3_ablation:
  assumes "p = (case pos_arg of None \<Rightarrow> spbR_pos (KD m) | Some x \<Rightarrow> x)"
  shows "(\<not> (spbL_pos (KD m) \<le> p \<and> p \<le> spbR_pos (KD m)) \<longrightarrow>
            ablation c m time_point pos_arg =
              m\<lparr>trace := trace m @ [Log WARNING ''Missed shot, same player play again!'']\<rparr>
            \<and> map plug_state (all_plugsites (KD (ablation c m time_point pos_arg)))
                = map plug_state (all_plugsites (KD m))
            \<and> report (ablation c m time_point pos_arg) = report m)
       \<and> (spbL_pos (KD m) \<le> p \<and> p \<le> spbR_pos (KD m) \<longrightarrow>
            length (all_plugsites (KD (ablation c m time_point pos_arg)))
              = length (all_plugsites (KD m))
            \<and> (\<forall>i < length (all_plugsites (KD m)).
                  plug_state (all_plugsites (KD m) ! i) = 0 \<longrightarrow>
                  all_plugsites (KD (ablation c m time_point pos_arg)) ! i
                    = all_plugsites (KD m) ! i))"
  using assms
  by (simp add: ablation_def Let_def emit_def ablation_loop_map ablate_site_unattached)

theorem C3_ablation_witness:
  "\<not> (spbL_pos (KD (ex_meta ex_kd)) \<le> 3 \<and> 3 \<le> spbR_pos (KD (ex_meta ex_kd)))
   \<and> map plug_state (all_plugsites (KD (ablation ex_collab (ex_meta ex_kd) 1 (Some 3))))
       = [- 1, 0, 1, 0]
   \<and> trace (ablation ex_collab (ex_meta ex_kd) 1 (Some 3))
       = [Log WARNING ''Missed shot, same player play again!'']
   \<and> spbL_pos (KD (ex_meta ex_kd)) \<le> 0 \<and> 0 \<le> spbR_pos (KD (ex_meta ex_kd))
   \<and> plug_state (all_plugsites (KD (ex_meta ex_kd)) ! 1) = 0
   \<and> all_plugsites (KD (ablation ex_collab (ex_meta ex_kd) 1 (Some 0))) ! 1
       = all_plugsites (KD (ex_meta ex_kd)) ! 1
   \<and> map plug_state (all_plugsites (KD (ablation ex_collab (ex_meta ex_kd) 1 (Some 0))))
       = [0, 0, 0, 0]"
proof -
  let ?m = "ex_meta ex_kd"
  have out: "\<not> (spbL_pos (KD ?m) \<le> 3 \<and> 3 \<le> spbR_pos (KD ?m))" by code_simp
  have inside: "spbL_pos (KD ?m) \<le> 0 \<and> 0 \<le> spbR_pos (KD ?m)" by code_simp
  have st: "map plug_state (all_plugsites (KD ?m)) = [- 1, 0, 1, 0]" by code_simp
  have tr: "trace ?m = []" by code_simp
  have len: "(1::nat) < length (all_plugsites (KD ?m))" by code_simp
  have s1: "plug_state (all_plugsites (KD ?m) ! 1) = 0" by code_simp
  have ab: "map plug_state (all_plugsites (KD (ablation ex_collab ?m 1 (Some 0)))) = [0, 0, 0, 0]"
    by code_simp
  have p3: "(3::rat) = (case Some 3 of None \<Rightarrow> spbR_pos (KD ?m) | Some x \<Rightarrow> x)" by simp
  have p0: "(0::rat) = (case Some 0 of None \<Rightarrow> spbR_pos (KD ?m) | Some x \<Rightarrow> x)" by simp
  show ?thesis
    using C3_ablation [OF p3, of ex_collab 1] C3_ablation [OF p0, of ex_collab 1]
      out inside st tr len s1 ab
    by simp
qed

subsection \<open>The cohesin parameter after a run\<close>

lemma finalize_chromosome_params: "params (finalize_chromosome c i kd) = params kd"
  by (simp add: finalize_chromosome_def Let_def)

lemma finalize_loop_params: "params (finalize_loop c is kd) = params kd"
  by (induction "is" arbitrary: kd) (simp_all add: finalize_chromosome_params)

text \<open>
  C9: when \<open>simul\<close> completes, the live parameter \<open>kappa_c\<close> has the value it had when
  the run started, whether or not the anaphase transition fired during the run. In the
  witness the transition fires and sets \<open>kappa_c\<close> to 0; the run ends with 5 again.
\<close>

theorem C9_kappa_c_restored:
  assumes "fst (simul c m ablat ablat_pos) = Inr ()"
  shows "params (KD (snd (simul c m ablat ablat_pos))) ''kappa_c'' = params (KD m) ''kappa_c''"
  using assms
  by (auto simp add: simul_def Let_def finalize_loop_params
           split: if_splits option.splits prod.splits sum.splits)

theorem C9_kappa_c_restored_witness:
  "fst (simul ex_collab (ex_meta ex_kd) None (Some 0)) = Inr ()
   \<and> anaphase (KD (snd (simul ex_collab (ex_meta ex_kd) None (Some 0))))
   \<and> params (KD (snd (anaphase_test ex_collab (ex_meta ex_kd) 1))) ''kappa_c'' = Some 0
   \<and> params (KD (ex_meta ex_kd)) ''kappa_c'' = Some 5
   \<and> params (KD (snd (simul ex_collab (ex_meta ex_kd) None (Some 0)))) ''kappa_c'' = Some 5"
proof -
  have ok: "fst (simul ex_collab (ex_meta ex_kd) None (Some 0)) = Inr ()" by code_simp
  have a: "anaphase (KD (snd (simul ex_collab (ex_meta ex_kd) None (Some 0))))" by code_simp
  have z: "params (KD (snd (anaphase_test ex_collab (ex_meta ex_kd) 1))) ''kappa_c'' = Some 0"
    by code_simp
  have k: "params (KD (ex_meta ex_kd)) ''kappa_c'' = Some 5" by code_simp
  show ?thesis using ok a z k C9_kappa_c_restored [OF ok] by simp
qed

subsection \<open>The anaphase transition\<close>




subsection \<open>The number of steps\<close>












subsection \<open>The delay line of a run without anaphase\<close>

text \<open>
  The transition is the only place that calls \<open>calc_B\<close>, so a run in which it never fires
  is a run whose trace holds no \<open>CalcB\<close>. Such a run leaves the recorded delay and the
  report as they were until the loop ends.
\<close>

lemma log_info_frame:
  "delay (log_info s m) = delay m" "report (log_info s m) = report m"
  "set (trace m) \<subseteq> set (trace (log_info s m))"
  by (auto simp add: log_info_def emit_def)

lemma ablation_frame:
  "delay (ablation c m time_point pos_arg) = delay m"
  "report (ablation c m time_point pos_arg) = report m"
  "set (trace m) \<subseteq> set (trace (ablation c m time_point pos_arg))"
  by (auto simp add: ablation_def Let_def emit_def)

lemma anaphase_test_trace_mono:
  "set (trace m) \<subseteq> set (trace (snd (anaphase_test c m time_point)))"
  by (auto simp add: anaphase_test_def anaphase_onset_def Let_def emit_def
           split: option.splits sum.splits)

lemma anaphase_test_quiet:
  "CalcB \<notin> set (trace (snd (anaphase_test c m time_point))) \<Longrightarrow>
   snd (anaphase_test c m time_point) = m"
  by (auto simp add: anaphase_test_def anaphase_onset_def Let_def emit_def
           split: option.splits sum.splits if_splits)

lemma simul_loop_trace_mono:
  "set (trace m) \<subseteq> set (trace (snd (simul_loop c ablat ablat_pos tps lao m)))"
proof (induction tps arbitrary: lao m)
  case Nil
  then show ?case by simp
next
  case (Cons tp tps)
  let ?m1 = "if ablat = Some (of_int tp)
             then ablation c (log_info ''Performing ablation'' m) tp ablat_pos else m"
  have m1: "set (trace m) \<subseteq> set (trace ?m1)"
    using ablation_frame(3) [of "log_info ''Performing ablation'' m" c tp ablat_pos]
      log_info_frame(3) [of m "''Performing ablation''"] by auto
  obtain r m2 where at: "anaphase_test c ?m1 tp = (r, m2)" by (cases "anaphase_test c ?m1 tp")
  have m2: "set (trace m) \<subseteq> set (trace m2)"
    using anaphase_test_trace_mono [of ?m1 c tp] at m1 by auto
  show ?case
  proof (cases r)
    case (Inl e)
    with at m2 show ?thesis by (simp add: Let_def)
  next
    case (Inr x)
    let ?m3 = "if x \<and> \<not> lao then log_info (onset_str tp (num_steps m2)) m2 else m2"
    let ?m4 = "emit (OneStep tp) (?m3\<lparr>KD := one_step c tp (KD ?m3)\<rparr>)"
    have eq: "simul_loop c ablat ablat_pos (tp # tps) lao m
                = simul_loop c ablat ablat_pos tps (lao \<or> x) ?m4"
      using at Inr by (simp add: Let_def)
    have m4: "set (trace m2) \<subseteq> set (trace ?m4)"
      using log_info_frame(3) [of m2 "onset_str tp (num_steps m2)"]
      by (auto simp add: emit_def)
    from Cons.IH [of ?m4 "lao \<or> x"] m4 m2 eq show ?thesis by auto
  qed
qed

lemma simul_loop_quiet:
  "CalcB \<notin> set (trace (snd (simul_loop c ablat ablat_pos tps lao m))) \<Longrightarrow>
   delay (snd (simul_loop c ablat ablat_pos tps lao m)) = delay m
   \<and> report (snd (simul_loop c ablat ablat_pos tps lao m)) = report m"
proof (induction tps arbitrary: lao m)
  case Nil
  then show ?case by simp
next
  case (Cons tp tps)
  let ?m1 = "if ablat = Some (of_int tp)
             then ablation c (log_info ''Performing ablation'' m) tp ablat_pos else m"
  have m1: "delay ?m1 = delay m \<and> report ?m1 = report m"
    by (simp add: ablation_frame log_info_frame)
  obtain r m2 where at: "anaphase_test c ?m1 tp = (r, m2)" by (cases "anaphase_test c ?m1 tp")
  show ?case
  proof (cases r)
    case (Inl e)
    with at Cons.prems have "CalcB \<notin> set (trace m2)" by (simp add: Let_def)
    with at anaphase_test_quiet [of c ?m1 tp] have "m2 = ?m1" by simp
    with at Inl m1 show ?thesis by (simp add: Let_def)
  next
    case (Inr x)
    let ?m3 = "if x \<and> \<not> lao then log_info (onset_str tp (num_steps m2)) m2 else m2"
    let ?m4 = "emit (OneStep tp) (?m3\<lparr>KD := one_step c tp (KD ?m3)\<rparr>)"
    have eq: "simul_loop c ablat ablat_pos (tp # tps) lao m
                = simul_loop c ablat ablat_pos tps (lao \<or> x) ?m4"
      using at Inr by (simp add: Let_def)
    with Cons.prems
    have q: "CalcB \<notin> set (trace (snd (simul_loop c ablat ablat_pos tps (lao \<or> x) ?m4)))"
      by simp
    have sub: "set (trace m2) \<subseteq> set (trace ?m4)"
      using log_info_frame(3) [of m2 "onset_str tp (num_steps m2)"]
      by (auto simp add: emit_def)
    from q simul_loop_trace_mono [of ?m4 c ablat ablat_pos tps "lao \<or> x"] sub
    have "CalcB \<notin> set (trace m2)" by auto
    with at anaphase_test_quiet [of c ?m1 tp] have "m2 = ?m1" by simp
    then have m4: "delay ?m4 = delay m \<and> report ?m4 = report m"
      using m1 by (simp add: emit_def log_info_frame)
    from Cons.IH [OF q] m4 eq show ?thesis by simp
  qed
qed

lemma delay_str_sentinel: "delay_str (- 1) = ''delay = -1 seconds''"
  by code_simp

text \<open>
  C10: on a freshly constructed instance, a run that completes and in which the anaphase
  transition never fires (no call of \<open>calc_B\<close>) appends exactly one report line, the
  delay line, and it shows the sentinel \<open>-1\<close> set at construction:
  \<open>delay = -1 seconds\<close>. In the witness the checkpoint is active and no centromere is
  attached, so the checkpoint never passes.
\<close>

theorem C10_sentinel_delay_line:
  assumes "Metaphase_init verb duration dt kd = Inr m"
      and "fst (simul c m ablat ablat_pos) = Inr ()"
      and "CalcB \<notin> set (trace (snd (simul c m ablat ablat_pos)))"
  shows "report (snd (simul c m ablat ablat_pos)) = [''delay = -1 seconds'']
       \<and> delay (snd (simul c m ablat ablat_pos)) = - 1"
proof -
  from assms(1) have d: "delay m = - 1" and rp: "report m = []"
    by (auto simp add: Metaphase_init_def split: if_splits)
  from assms(2) obtain kappa_c where k: "params (KD m) ''kappa_c'' = Some kappa_c"
    and nd: "\<not> simulation_done (KD m)"
    by (auto simp add: simul_def split: if_splits option.splits)
  let ?m0 = "log_info ''Running simulation'' m"
  let ?l = "simul_loop c ablat ablat_pos [1..num_steps m - 1] False ?m0"
  obtain r m1 where l: "?l = (r, m1)" by (cases ?l)
  from assms(2) k nd l obtain b where r: "r = Inr b"
    by (cases r) (simp_all add: simul_def)
  have tr: "trace (snd (simul c m ablat ablat_pos)) = trace (log_info ''Simulation done'' m1)"
    and rep: "report (snd (simul c m ablat ablat_pos)) = report m1 @ [delay_str (delay m1)]"
    and del: "delay (snd (simul c m ablat ablat_pos)) = delay m1"
    using k nd l r by (simp_all add: simul_def Let_def log_info_frame)
  from assms(3) tr log_info_frame(3) [of m1 "''Simulation done''"]
  have "CalcB \<notin> set (trace m1)" by auto
  with l have "CalcB \<notin> set (trace (snd ?l))" by simp
  from simul_loop_quiet [OF this] l
  have "delay m1 = delay ?m0" "report m1 = report ?m0" by simp_all
  with d rp have "delay m1 = - 1" "report m1 = []" by (simp_all add: log_info_frame)
  with rep del show ?thesis by (simp add: delay_str_sentinel)
qed

theorem C10_sentinel_delay_line_witness:
  "Metaphase_init False 3 1 ex_kd_free
     = Inr ((ex_meta ex_kd_free)\<lparr>KD := ex_kd_free\<lparr>anaphase := False\<rparr>\<rparr>)
   \<and> fst (simul ex_collab ((ex_meta ex_kd_free)\<lparr>KD := ex_kd_free\<lparr>anaphase := False\<rparr>\<rparr>)
            None (Some 0)) = Inr ()
   \<and> trace (snd (simul ex_collab ((ex_meta ex_kd_free)\<lparr>KD := ex_kd_free\<lparr>anaphase := False\<rparr>\<rparr>)
            None (Some 0))) = [OneStep 1, OneStep 2]
   \<and> report (snd (simul ex_collab ((ex_meta ex_kd_free)\<lparr>KD := ex_kd_free\<lparr>anaphase := False\<rparr>\<rparr>)
            None (Some 0))) = [''delay = -1 seconds'']"
proof -
  let ?m = "(ex_meta ex_kd_free)\<lparr>KD := ex_kd_free\<lparr>anaphase := False\<rparr>\<rparr>"
  have t: "py_int 3 = 3" by code_simp
  have i: "Metaphase_init False 3 1 ex_kd_free = Inr ?m"
    by (simp add: Metaphase_init_def ex_meta_def t)
  have ok: "fst (simul ex_collab ?m None (Some 0)) = Inr ()" by code_simp
  have tr: "trace (snd (simul ex_collab ?m None (Some 0))) = [OneStep 1, OneStep 2]"
    by code_simp
  then have q: "CalcB \<notin> set (trace (snd (simul ex_collab ?m None (Some 0))))" by simp
  show ?thesis using C10_sentinel_delay_line [OF i ok q] i ok tr by simp
qed

end
